theory Spec2Isabelle
  imports Main "HOL-Library.Word"
begin

section \<open>Data model\<close>

text \<open>
  The voice assistant keeps, per connection, one \<open>VoiceAssistantBackend\<close> object
  (\<open>backend.py\<close>) whose \<open>conversation_history\<close> is a list of message dictionaries.
  The only roles the code ever writes are the three literals \<open>"system"\<close>, \<open>"user"\<close>
  and \<open>"assistant"\<close>. The keys \<open>timestamp\<close> and \<open>type\<close> are absent from some
  dictionaries, hence optional here.
\<close>

type_synonym bytes = "8 word list"

text \<open>An exception is represented by its text, \<open>str(e)\<close>.\<close>

type_synonym exn = string

datatype role = System | User | Assistant

record message =
  role :: role
  content :: string
  timestamp :: "string option"
  msg_type :: "string option"

text \<open>The dictionaries handed to the chat completion API carry role and content only.\<close>

record api_message =
  api_role :: role
  api_content :: string

record backend =
  conversation_history :: "message list"
  session_id :: string

text \<open>The dictionary that \<open>save_conversation\<close> dumps as JSON.\<close>

record conversation_data =
  data_session_id :: string
  start_time :: "string option"
  end_time :: string
  messages :: "message list"

subsection \<open>Constants of \<open>prompts.py\<close>\<close>

definition nl :: string where
  "nl = [CHR 0x0A]"

definition WELCOME_MESSAGE :: string where
  "WELCOME_MESSAGE =
     ''Hello! I'm your AI voice assistant. I'm here to help you with any questions or conversations you'd like to have. How can I assist you today?''"

definition SYSTEM_PROMPT :: string where
  "SYSTEM_PROMPT =
     ''You are a helpful, friendly, and conversational AI voice assistant. '' @ nl @ nl @
     ''Key guidelines:'' @ nl @
     ''- Keep responses concise and natural for voice conversation (2-4 sentences typically)'' @ nl @
     ''- Be warm and personable in your tone'' @ nl @
     ''- Ask clarifying questions when needed'' @ nl @
     ''- Avoid overly technical jargon unless the user is technical'' @ nl @
     ''- If you don't know something, be honest about it'' @ nl @
     ''- For long explanations, break them into digestible chunks'' @ nl @
     ''- Use conversational language, as if speaking to a friend'' @ nl @ nl @
     ''Remember: Your responses will be spoken aloud, so write in a way that sounds natural when read by text-to-speech.''"

definition MAX_CONVERSATION_HISTORY :: nat where
  "MAX_CONVERSATION_HISTORY = 10"

text \<open>The text \<open>get_llm_response\<close> returns when the completion call raises.\<close>

definition FALLBACK_RESPONSE :: string where
  "FALLBACK_RESPONSE =
     ''I apologize, but I'm having trouble processing that right now. Could you please try again?''"

text \<open>The text field of the greeting event, a literal of \<open>app.py\<close>.\<close>

definition GREETING_TEXT :: string where
  "GREETING_TEXT = ''Hello! How may I help you today?''"

section \<open>The outside world\<close>

text \<open>
  The clock, the three network services, the file system and the base64 codec are not
  code of this repository. Their answers are parameters: the \<open>k\<close>-th interaction with
  the outside (a clock read, a service call, a file write) gets the answer the
  environment gives at instant \<open>k\<close>, so two calls with equal arguments may be answered
  differently. \<open>Inl\<close> is an exception raised inside the corresponding \<open>try\<close> block.
\<close>

text \<open>Values produced by \<open>receive_json\<close>.\<close>

datatype json =
  JNull
  | JBool bool
  | JInt int
  | JFloat string
  | JStr string
  | JArr "json list"
  | JObj "(string \<times> json) list"

datatype write_outcome = Written | OpenFailed exn | DumpFailed exn

record env =
  assemblyai_key :: "string option"
  openai_key :: "string option"
  elevenlabs_key :: "string option"
  now_strftime :: "nat \<Rightarrow> string"
  now_isoformat :: "nat \<Rightarrow> string"
  transcribe :: "nat \<Rightarrow> bytes \<Rightarrow> exn + string option"
  chat_completion :: "nat \<Rightarrow> api_message list \<Rightarrow> exn + string"
  text_to_speech :: "nat \<Rightarrow> string \<Rightarrow> exn + bytes list"
  write_file :: "nat \<Rightarrow> string \<Rightarrow> write_outcome"
  b64decode :: "json \<Rightarrow> exn + bytes"
  b64encode :: "bytes \<Rightarrow> string"

text \<open>The calls made to the three services and to the file system, in order.\<close>

datatype call =
  Transcribe string bytes
  | ChatCompletion "api_message list"
  | TextToSpeech string
  | WriteFile string

text \<open>The events \<open>send_json\<close> puts on the connection.\<close>

datatype outbound =
  Connected string
  | AssistantResponse string string "bool option"
  | ErrorEvent string
  | ConversationSaved string

text \<open>
  A file holds the dumped dictionary, or \<open>None\<close> when \<open>open(filename, "w")\<close> truncated it
  and the dump did not complete.
\<close>

record world =
  tick :: nat
  calls :: "call list"
  stdout :: "string list"
  files :: "string \<rightharpoonup> conversation_data option"
  sent :: "outbound list"

definition py_print :: "string \<Rightarrow> world \<Rightarrow> world" where
  "py_print s w = w\<lparr>stdout := stdout w @ [s]\<rparr>"

definition send_json :: "outbound \<Rightarrow> world \<Rightarrow> world" where
  "send_json ev w = w\<lparr>sent := sent w @ [ev]\<rparr>"

definition external :: "call \<Rightarrow> world \<Rightarrow> world" where
  "external c w = w\<lparr>tick := tick w + 1, calls := calls w @ [c]\<rparr>"

definition read_clock :: "world \<Rightarrow> world" where
  "read_clock w = w\<lparr>tick := tick w + 1\<rparr>"

text \<open>Python's truth test of an optional string: \<open>None\<close> and \<open>""\<close> are false.\<close>

definition truthy :: "string option \<Rightarrow> bool" where
  "truthy s = (case s of None \<Rightarrow> False | Some t \<Rightarrow> t \<noteq> [])"

section \<open>\<open>backend.py\<close>: class \<open>VoiceAssistantBackend\<close>\<close>

definition system_message :: message where
  "system_message =
     \<lparr>role = System, content = SYSTEM_PROMPT, timestamp = None, msg_type = None\<rparr>"

text \<open>
  \<open>__init__\<close>: the three keys are validated in order, then the session identifier is
  read from the clock and the system prompt becomes the first entry of the history.
\<close>

definition VoiceAssistantBackend_init :: "env \<Rightarrow> world \<Rightarrow> (exn + backend) \<times> world" where
  "VoiceAssistantBackend_init e w =
     (if \<not> truthy (assemblyai_key e) then
        (Inl ''ASSEMBLYAI_API_KEY not found in environment variables'', w)
      else if \<not> truthy (openai_key e) then
        (Inl ''OPENAI_API_KEY not found in environment variables'', w)
      else if \<not> truthy (elevenlabs_key e) then
        (Inl ''ELEVENLABS_API_KEY not found in environment variables'', w)
      else
        (Inr \<lparr>conversation_history = [] @ [system_message],
              session_id = now_strftime e (tick w)\<rparr>,
         read_clock w))"

text \<open>
  \<open>transcribe_audio\<close>: writing the temporary file, the AssemblyAI call and the removal of
  the file happen outside; any exception among them is the answer \<open>Inl\<close>. The text of the
  transcript may be \<open>None\<close>.
\<close>

definition transcribe_audio :: "env \<Rightarrow> backend \<Rightarrow> bytes \<Rightarrow> world \<Rightarrow> string \<times> world" where
  "transcribe_audio e b audio_data w =
     (let temp_file = ''temp_audio_'' @ session_id b @ ''.wav'';
          w1 = external (Transcribe temp_file audio_data) w
      in case transcribe e (tick w) audio_data of
           Inl ex \<Rightarrow> ([], py_print (''Transcription error: '' @ ex) w1)
         | Inr text \<Rightarrow>
             (case text of None \<Rightarrow> [] | Some t \<Rightarrow> (if t \<noteq> [] then t else []), w1))"

text \<open>
  Python's slice \<open>xs[-n:]\<close>: the last \<open>n\<close> elements, and the whole list when \<open>n\<close> is
  \<open>0\<close> or exceeds the length.
\<close>

definition slice_last :: "nat \<Rightarrow> 'a list \<Rightarrow> 'a list" where
  "slice_last n xs = (if n = 0 then xs else drop (length xs - n) xs)"

text \<open>The list comprehension of \<open>get_llm_response\<close> that strips the timestamps.\<close>

definition api_message_of :: "message \<Rightarrow> api_message" where
  "api_message_of msg = \<lparr>api_role = role msg, api_content = content msg\<rparr>"

definition api_messages :: "message list \<Rightarrow> api_message list" where
  "api_messages h =
     map api_message_of (filter (\<lambda>msg. role msg \<in> set [System, User, Assistant]) h)"

text \<open>The window sent to the API: the truncation of lines 95-96.\<close>

definition context_window :: "message list \<Rightarrow> api_message list" where
  "context_window h =
     (let msgs = api_messages h
      in if length msgs > MAX_CONVERSATION_HISTORY + 1
         then [msgs ! 0] @ slice_last MAX_CONVERSATION_HISTORY msgs
         else msgs)"

definition user_entry :: "string \<Rightarrow> string \<Rightarrow> message" where
  "user_entry user_message t =
     \<lparr>role = User, content = user_message, timestamp = Some t, msg_type = None\<rparr>"

definition assistant_entry :: "string \<Rightarrow> string \<Rightarrow> message" where
  "assistant_entry assistant_message t =
     \<lparr>role = Assistant, content = assistant_message, timestamp = Some t, msg_type = None\<rparr>"

text \<open>
  \<open>get_llm_response\<close>: the user entry is appended before the call; the assistant entry
  only after the call has returned. The \<open>except\<close> branch returns the fallback text and
  leaves the history as it is at that point. The reply is a string, as the annotation of
  the function says.
\<close>

definition get_llm_response :: "env \<Rightarrow> backend \<Rightarrow> string \<Rightarrow> world \<Rightarrow> string \<times> backend \<times> world" where
  "get_llm_response e b user_message w =
     (let b1 = b\<lparr>conversation_history :=
                  conversation_history b @ [user_entry user_message (now_isoformat e (tick w))]\<rparr>;
          w1 = read_clock w;
          msgs = context_window (conversation_history b1);
          w2 = external (ChatCompletion msgs) w1
      in case chat_completion e (tick w1) msgs of
           Inr assistant_message \<Rightarrow>
             (assistant_message,
              b1\<lparr>conversation_history :=
                   conversation_history b1 @
                     [assistant_entry assistant_message (now_isoformat e (tick w2))]\<rparr>,
              read_clock w2)
         | Inl ex \<Rightarrow> (FALLBACK_RESPONSE, b1, py_print (''LLM error: '' @ ex) w2))"

text \<open>\<open>synthesize_speech\<close>: the chunks of the stream are concatenated; an exception gives \<open>b""\<close>.\<close>

definition synthesize_speech :: "env \<Rightarrow> string \<Rightarrow> world \<Rightarrow> bytes \<times> world" where
  "synthesize_speech e text w =
     (let w1 = external (TextToSpeech text) w
      in case text_to_speech e (tick w) text of
           Inr chunks \<Rightarrow> (concat chunks, w1)
         | Inl ex \<Rightarrow> ([], py_print (''TTS error: '' @ ex) w1))"

definition welcome_entry :: "string \<Rightarrow> message" where
  "welcome_entry t =
     \<lparr>role = Assistant, content = WELCOME_MESSAGE, timestamp = Some t,
      msg_type = Some ''welcome''\<rparr>"

definition get_welcome_audio :: "env \<Rightarrow> backend \<Rightarrow> world \<Rightarrow> bytes \<times> backend \<times> world" where
  "get_welcome_audio e b w =
     (let b1 = b\<lparr>conversation_history :=
                  conversation_history b @ [welcome_entry (now_isoformat e (tick w))]\<rparr>;
          (audio, w1) = synthesize_speech e WELCOME_MESSAGE (read_clock w)
      in (audio, b1, w1))"

text \<open>
  \<open>save_conversation\<close>: the dictionary is built in the order of its keys, so the read of
  \<open>conversation_history[1]["timestamp"]\<close> comes before the clock read, and a missing key
  there is a \<open>KeyError\<close> caught by the \<open>except\<close> branch, like a failure of the write.
  The object itself is only read.
\<close>

definition conversation_filename :: "backend \<Rightarrow> string" where
  "conversation_filename b = ''conversation_'' @ session_id b @ ''.json''"

definition save_conversation :: "env \<Rightarrow> backend \<Rightarrow> world \<Rightarrow> string \<times> world" where
  "save_conversation e b w =
     (let filename = conversation_filename b;
          h = conversation_history b;
          failed = (\<lambda>ex w'. ([], py_print (''Error saving conversation: '' @ ex) w'))
      in case (if length h > 1
               then (case timestamp (h ! 1) of
                       None \<Rightarrow> Inl ([CHR 0x27] @ ''timestamp'' @ [CHR 0x27])
                     | Some t \<Rightarrow> Inr (Some t))
               else Inr None) of
           Inl ex \<Rightarrow> failed ex w
         | Inr start \<Rightarrow>
             (let data = \<lparr>data_session_id = session_id b,
                          start_time = start,
                          end_time = now_isoformat e (tick w),
                          messages = filter (\<lambda>msg. role msg \<noteq> System) h\<rparr>;
                  w1 = read_clock w;
                  w2 = external (WriteFile filename) w1
              in case write_file e (tick w1) filename of
                   Written \<Rightarrow>
                     (filename,
                      py_print (''Conversation saved to '' @ filename)
                        (w2\<lparr>files := (files w2)(filename \<mapsto> Some data)\<rparr>))
                 | OpenFailed ex \<Rightarrow> failed ex w2
                 | DumpFailed ex \<Rightarrow> failed ex (w2\<lparr>files := (files w2)(filename \<mapsto> None)\<rparr>)))"

text \<open>\<open>process_user_audio\<close>: transcription, completion, synthesis.\<close>

definition process_user_audio :: "env \<Rightarrow> backend \<Rightarrow> bytes \<Rightarrow> world \<Rightarrow> string \<times> bytes \<times> backend \<times> world" where
  "process_user_audio e b audio_data w =
     (let (user_text, w1) = transcribe_audio e b audio_data w
      in if user_text = [] then ([], [], b, w1)
         else
           (let w2 = py_print (''User said: '' @ user_text) w1;
                (assistant_text, b1, w3) = get_llm_response e b user_text w2;
                w4 = py_print (''Assistant: '' @ assistant_text) w3;
                (assistant_audio, w5) = synthesize_speech e assistant_text w4
            in (assistant_text, assistant_audio, b1, w5)))"

section \<open>\<open>app.py\<close>: the WebSocket endpoint\<close>

text \<open>
  The registry \<open>sessions\<close> maps \<open>id(websocket)\<close> to the backend object. The transport
  accepts every \<open>send_json\<close>; a connection that has gone away shows at the next
  \<open>receive_json\<close>.
\<close>

type_synonym registry = "int \<rightharpoonup> backend"

text \<open>Python's \<open>str\<close> of an integer.\<close>

fun str_nat :: "nat \<Rightarrow> string" where
  "str_nat n =
     (if n < 10 then [''0123456789'' ! n]
      else str_nat (n div 10) @ [''0123456789'' ! (n mod 10)])"

declare str_nat.simps [simp del]

definition str_int :: "int \<Rightarrow> string" where
  "str_int i = (if i < 0 then ''-'' @ str_nat (nat (- i)) else str_nat (nat i))"

definition quoted :: "string \<Rightarrow> string" where
  "quoted s = [CHR 0x27] @ s @ [CHR 0x27]"

definition type_name :: "json \<Rightarrow> string" where
  "type_name v =
     (case v of
        JNull \<Rightarrow> ''NoneType''
      | JBool _ \<Rightarrow> ''bool''
      | JInt _ \<Rightarrow> ''int''
      | JFloat _ \<Rightarrow> ''float''
      | JStr _ \<Rightarrow> ''str''
      | JArr _ \<Rightarrow> ''list''
      | JObj _ \<Rightarrow> ''dict'')"

text \<open>
  The branch for \<open>user_audio\<close> (lines 73-99): a missing \<open>audio\<close> key and an undecodable
  value raise inside the inner \<open>try\<close>, whose handler sends the exception's text.
\<close>

definition handle_user_audio :: "env \<Rightarrow> backend \<Rightarrow> (string \<times> json) list \<Rightarrow> world \<Rightarrow> backend \<times> world" where
  "handle_user_audio e b data w =
     (let failed = (\<lambda>ex w'. send_json (ErrorEvent ex) (py_print (''Error processing audio: '' @ ex) w'))
      in case map_of data ''audio'' of
           None \<Rightarrow> (b, failed (quoted ''audio'') w)
         | Some a \<Rightarrow>
             (case b64decode e a of
                Inl ex \<Rightarrow> (b, failed ex w)
              | Inr audio_data \<Rightarrow>
                  (let (text_response, audio_response, b1, w1) = process_user_audio e b audio_data w
                   in if text_response \<noteq> [] \<and> audio_response \<noteq> []
                      then (b1, send_json (AssistantResponse text_response
                                             (b64encode e audio_response) None) w1)
                      else (b1, send_json (ErrorEvent ''Failed to process audio'') w1))))"

text \<open>The branch for \<open>end_conversation\<close> (lines 101-108).\<close>

definition handle_end_conversation :: "env \<Rightarrow> backend \<Rightarrow> world \<Rightarrow> backend \<times> world" where
  "handle_end_conversation e b w =
     (let (filename, w1) = save_conversation e b w;
          w2 = send_json (ConversationSaved filename) w1
      in (b, py_print (''Conversation ended and saved: '' @ filename) w2))"

text \<open>
  One pass through the body of \<open>while True\<close> after \<open>receive_json\<close> has returned
  \<open>data\<close>. \<open>data.get\<close> exists on dictionaries only; on any other value the
  \<open>AttributeError\<close> leaves the loop.
\<close>

definition loop_body :: "env \<Rightarrow> backend \<Rightarrow> json \<Rightarrow> world \<Rightarrow> exn + backend \<times> world" where
  "loop_body e b data w =
     (case data of
        JObj items \<Rightarrow>
          (let message_type = map_of items ''type''
           in if message_type = Some (JStr ''user_audio'') then Inr (handle_user_audio e b items w)
              else if message_type = Some (JStr ''end_conversation'')
              then Inr (handle_end_conversation e b w)
              else Inr (b, w))
      | _ \<Rightarrow> Inl (quoted (type_name data) @ '' object has no attribute '' @ quoted ''get''))"

text \<open>The handler of \<open>WebSocketDisconnect\<close> (lines 110-115).\<close>

definition on_disconnect :: "env \<Rightarrow> int \<Rightarrow> registry \<times> world \<Rightarrow> registry \<times> world" where
  "on_disconnect e sid sw =
     (let (sessions, w) = sw
      in case sessions sid of
           None \<Rightarrow> (sessions, w)
         | Some b \<Rightarrow>
             (let (filename, w1) = save_conversation e b w;
                  w2 = py_print (''Client disconnected: '' @ str_int sid @
                                 '', conversation saved to '' @ filename) w1
              in (sessions(sid := None), w2)))"

text \<open>The handler of any other exception (lines 117-120).\<close>

definition on_exception :: "int \<Rightarrow> exn \<Rightarrow> registry \<times> world \<Rightarrow> registry \<times> world" where
  "on_exception sid ex sw =
     (let (sessions, w) = sw;
          w1 = py_print (''WebSocket error: '' @ ex) w
      in if sessions sid \<noteq> None then (sessions(sid := None), w1) else (sessions, w1))"

text \<open>
  What \<open>receive_json\<close> does at each iteration: it returns a value, or raises
  \<open>WebSocketDisconnect\<close>, or raises something else.
\<close>

datatype recv = Received json | Disconnected | Failed exn

text \<open>
  How far the coroutine has come: still waiting in \<open>receive_json\<close>, returned after one
  of its handlers, or left by an exception no handler caught.
\<close>

datatype status = Running | Closed | Raised exn

text \<open>
  The loop, over the answers of \<open>receive_json\<close> so far. The local variable \<open>backend\<close>
  and \<open>sessions[session_id]\<close> name the same object, so a change of the object shows
  in the registry.
\<close>

fun receive_loop :: "env \<Rightarrow> int \<Rightarrow> backend \<Rightarrow> recv list \<Rightarrow> registry \<times> world \<Rightarrow> status \<times> registry \<times> world" where
  "receive_loop e sid b [] sw = (Running, sw)"
| "receive_loop e sid b (Received data # rest) sw =
     (case loop_body e b data (snd sw) of
        Inr (b1, w1) \<Rightarrow> receive_loop e sid b1 rest ((fst sw)(sid \<mapsto> b1), w1)
      | Inl ex \<Rightarrow> (Closed, on_exception sid ex sw))"
| "receive_loop e sid b (Disconnected # rest) sw = (Closed, on_disconnect e sid sw)"
| "receive_loop e sid b (Failed ex # rest) sw = (Closed, on_exception sid ex sw)"

text \<open>
  \<open>websocket_endpoint\<close>, from the point where the connection has been accepted: the
  session is created and registered, the confirmation and the greeting are sent, then
  the loop runs. An exception of the constructor is raised before the first \<open>try\<close> and
  leaves the coroutine. Nothing in the \<open>try\<close> around the greeting raises, since
  \<open>synthesize_speech\<close> catches its own exceptions.
\<close>

definition websocket_endpoint :: "env \<Rightarrow> int \<Rightarrow> recv list \<Rightarrow> registry \<times> world \<Rightarrow> status \<times> registry \<times> world" where
  "websocket_endpoint e session_id' inputs sw =
     (let (sessions, w) = sw
      in case VoiceAssistantBackend_init e w of
           (Inl ex, w1) \<Rightarrow> (Raised ex, sessions, w1)
         | (Inr b, w1) \<Rightarrow>
             (let w2 = py_print (''Client connected: '' @ str_int session_id') w1;
                  w3 = send_json (Connected (str_int session_id')) w2;
                  (welcome_audio, b1, w4) = get_welcome_audio e b w3;
                  w5 = send_json (AssistantResponse GREETING_TEXT (b64encode e welcome_audio)
                                    (Some True)) w4
              in receive_loop e session_id' b1 inputs (sessions(session_id' \<mapsto> b1), w5)))"

section \<open>Sequences of calls on one backend\<close>

text \<open>
  A session is one backend object on which the endpoint calls \<open>get_welcome_audio\<close>,
  \<open>process_user_audio\<close> and \<open>save_conversation\<close>, in some order, after \<open>__init__\<close>.
\<close>

datatype operation = Welcome | UserTurn bytes | Export

fun run_operation :: "env \<Rightarrow> operation \<Rightarrow> backend \<times> world \<Rightarrow> backend \<times> world" where
  "run_operation e Welcome (b, w) =
     (let (audio, b1, w1) = get_welcome_audio e b w in (b1, w1))"
| "run_operation e (UserTurn audio_data) (b, w) =
     (let (text, audio, b1, w1) = process_user_audio e b audio_data w in (b1, w1))"
| "run_operation e Export (b, w) =
     (let (filename, w1) = save_conversation e b w in (b, w1))"

fun run_operations :: "env \<Rightarrow> operation list \<Rightarrow> backend \<times> world \<Rightarrow> backend \<times> world" where
  "run_operations e [] s = s"
| "run_operations e (x # xs) s = run_operations e xs (run_operation e x s)"

section \<open>Sample inputs\<close>

text \<open>
  Concrete environments, used to evaluate the model: one in which every service answers,
  and variants in which the completion call raises, the synthesis call raises, the audio
  holds no speech, and the disk is full.
\<close>

definition sample_env :: env where
  "sample_env =
     \<lparr>assemblyai_key = Some ''aai-key'',
      openai_key = Some ''sk-key'',
      elevenlabs_key = Some ''el-key'',
      now_strftime = (\<lambda>k. ''20240101_12000'' @ [''0123456789'' ! (k mod 10)]),
      now_isoformat = (\<lambda>k. ''2024-01-01T12:00:0'' @ [''0123456789'' ! (k mod 10)]),
      transcribe = (\<lambda>k a. Inr (Some ''What time is it?'')),
      chat_completion = (\<lambda>k msgs. Inr ''It is noon.''),
      text_to_speech = (\<lambda>k t. Inr [[1], [2]]),
      write_file = (\<lambda>k f. Written),
      b64decode = (\<lambda>j. if j = JStr ''AQ=='' then Inr [1] else Inl ''Incorrect padding''),
      b64encode = (\<lambda>a. if a = [1, 2] then ''AQI='' else ''AA=='')\<rparr>"

definition env_generator_down :: env where
  "env_generator_down = sample_env\<lparr>chat_completion := (\<lambda>k msgs. Inl ''Connection error.'')\<rparr>"

definition env_synthesis_down :: env where
  "env_synthesis_down = sample_env\<lparr>text_to_speech := (\<lambda>k t. Inl ''quota exceeded'')\<rparr>"

definition env_silence :: env where
  "env_silence = sample_env\<lparr>transcribe := (\<lambda>k a. Inr None)\<rparr>"

definition sample_world :: world where
  "sample_world = \<lparr>tick = 0, calls = [], stdout = [], files = Map.empty, sent = []\<rparr>"

definition sample_backend :: backend where
  "sample_backend = \<lparr>conversation_history = [system_message], session_id = ''20240101_120000''\<rparr>"

definition sample_event :: "(string \<times> json) list" where
  "sample_event = [(''type'', JStr ''user_audio''), (''audio'', JStr ''AQ=='')]"


definition end_event :: "(string \<times> json) list" where
  "end_event = [(''type'', JStr ''end_conversation'')]"

definition sample_operations :: "operation list" where
  "sample_operations = [Welcome, UserTurn [1], Export]"

definition sample_session :: "backend \<times> world" where
  "sample_session =
     run_operations sample_env [Welcome, UserTurn [1]] (sample_backend, read_clock sample_world)"


definition sample_turns :: "message list" where
  "sample_turns = map (\<lambda>c. user_entry [c] ''2024-01-01T12:00:00'') ''abcdefghijkl''"

section \<open>Properties of the stages\<close>

lemma api_messages_all: "api_messages h = map api_message_of h"
proof -
  have "filter (\<lambda>msg. role msg \<in> set [System, User, Assistant]) h = h"
    by (rule filter_True) (simp, metis role.exhaust)
  then show ?thesis by (simp add: api_messages_def)
qed

lemma context_window_Cons:
  "context_window (sys # rest) =
     api_message_of sys # map api_message_of (drop (length rest - MAX_CONVERSATION_HISTORY) rest)"
proof (cases "10 < length rest")
  case True
  have k: "length rest - 9 = Suc (length rest - 10)"
    using True by arith
  from True show ?thesis
    by (simp add: context_window_def api_messages_all slice_last_def
        MAX_CONVERSATION_HISTORY_def Let_def drop_map k)
next
  case False
  then show ?thesis
    by (simp add: context_window_def api_messages_all slice_last_def
        MAX_CONVERSATION_HISTORY_def Let_def)
qed

lemma length_context_window:
  "length (context_window (sys # rest)) = min MAX_CONVERSATION_HISTORY (length rest) + 1"
  by (simp add: context_window_Cons)

lemma py_print_simps [simp]:
  "tick (py_print s w) = tick w" "calls (py_print s w) = calls w"
  "sent (py_print s w) = sent w" "files (py_print s w) = files w"
  "stdout (py_print s w) = stdout w @ [s]"
  by (simp_all add: py_print_def)

lemma send_json_simps [simp]:
  "tick (send_json ev w) = tick w" "calls (send_json ev w) = calls w"
  "sent (send_json ev w) = sent w @ [ev]" "files (send_json ev w) = files w"
  "stdout (send_json ev w) = stdout w"
  by (simp_all add: send_json_def)

lemma external_simps [simp]:
  "tick (external c w) = Suc (tick w)" "calls (external c w) = calls w @ [c]"
  "sent (external c w) = sent w" "files (external c w) = files w"
  "stdout (external c w) = stdout w"
  by (simp_all add: external_def)

lemma read_clock_simps [simp]:
  "tick (read_clock w) = Suc (tick w)" "calls (read_clock w) = calls w"
  "sent (read_clock w) = sent w" "files (read_clock w) = files w"
  "stdout (read_clock w) = stdout w"
  by (simp_all add: read_clock_def)

lemma transcribe_audio_world:
  assumes "transcribe_audio e b a w = (t, w1)"
  shows "tick w1 = Suc (tick w)"
    and "calls w1 = calls w @ [Transcribe (''temp_audio_'' @ session_id b @ ''.wav'') a]"
    and "sent w1 = sent w" and "files w1 = files w"
  using assms by (auto simp: transcribe_audio_def Let_def split: sum.splits)

lemma transcribe_audio_text:
  "fst (transcribe_audio e b a w) =
     (case transcribe e (tick w) a of Inr (Some t) \<Rightarrow> t | _ \<Rightarrow> [])"
  by (simp add: transcribe_audio_def Let_def split: sum.splits option.splits)

lemma synthesize_speech_world:
  assumes "synthesize_speech e text w = (a, w1)"
  shows "tick w1 = Suc (tick w)" and "calls w1 = calls w @ [TextToSpeech text]"
    and "sent w1 = sent w" and "files w1 = files w"
    and "a = (case text_to_speech e (tick w) text of Inr chunks \<Rightarrow> concat chunks | Inl ex \<Rightarrow> [])"
  using assms by (auto simp: synthesize_speech_def Let_def split: sum.splits)

lemma get_llm_response_result:
  assumes "get_llm_response e b um w = (reply, b1, w1)"
  shows "conversation_history b1 =
           conversation_history b @ user_entry um (now_isoformat e (tick w)) #
             (case chat_completion e (Suc (tick w))
                     (context_window (conversation_history b @ [user_entry um (now_isoformat e (tick w))])) of
                Inr r \<Rightarrow> [assistant_entry r (now_isoformat e (Suc (Suc (tick w))))]
              | Inl ex \<Rightarrow> [])"
    and "reply =
           (case chat_completion e (Suc (tick w))
                     (context_window (conversation_history b @ [user_entry um (now_isoformat e (tick w))])) of
                Inr r \<Rightarrow> r | Inl ex \<Rightarrow> FALLBACK_RESPONSE)"
    and "calls w1 = calls w @
           [ChatCompletion (context_window (conversation_history b @ [user_entry um (now_isoformat e (tick w))]))]"
    and "sent w1 = sent w" and "files w1 = files w" and "session_id b1 = session_id b"
    and "tick w1 =
           (case chat_completion e (Suc (tick w))
                     (context_window (conversation_history b @ [user_entry um (now_isoformat e (tick w))])) of
                Inr r \<Rightarrow> tick w + 3 | Inl ex \<Rightarrow> tick w + 2)"
  using assms by (auto simp: get_llm_response_def Let_def split: sum.splits)

lemma process_user_audio_empty:
  "fst (transcribe_audio e b a w) = [] \<Longrightarrow>
   process_user_audio e b a w = ([], [], b, snd (transcribe_audio e b a w))"
  by (cases "transcribe_audio e b a w") (simp add: process_user_audio_def)

lemma process_user_audio_nonempty:
  assumes "transcribe_audio e b a w = (ut, w1)" and "ut \<noteq> []"
    and "get_llm_response e b ut (py_print (''User said: '' @ ut) w1) = (at, b1, w3)"
    and "synthesize_speech e at (py_print (''Assistant: '' @ at) w3) = (aa, w5)"
  shows "process_user_audio e b a w = (at, aa, b1, w5)"
  using assms by (simp add: process_user_audio_def)

lemma process_user_audio_stages:
  assumes "fst (transcribe_audio e b a w) = ut" and "ut \<noteq> []"
  obtains w1 at b1 w3 aa w5 where
    "transcribe_audio e b a w = (ut, w1)"
    "get_llm_response e b ut (py_print (''User said: '' @ ut) w1) = (at, b1, w3)"
    "synthesize_speech e at (py_print (''Assistant: '' @ at) w3) = (aa, w5)"
    "process_user_audio e b a w = (at, aa, b1, w5)"
proof -
  obtain w1 where t: "transcribe_audio e b a w = (ut, w1)"
    using assms(1) by (cases "transcribe_audio e b a w") auto
  obtain at b1 w3 where g:
    "get_llm_response e b ut (py_print (''User said: '' @ ut) w1) = (at, b1, w3)"
    by (metis prod_cases3)
  obtain aa w5 where s: "synthesize_speech e at (py_print (''Assistant: '' @ at) w3) = (aa, w5)"
    by (metis surj_pair)
  from t assms(2) g s have "process_user_audio e b a w = (at, aa, b1, w5)"
    by (rule process_user_audio_nonempty)
  with t g s show thesis by (rule that)
qed

lemma loop_body_user_audio:
  "map_of items ''type'' = Some (JStr ''user_audio'') \<Longrightarrow>
   loop_body e b (JObj items) w = Inr (handle_user_audio e b items w)"
  by (simp add: loop_body_def)

lemma handle_user_audio_decoded:
  assumes "map_of items ''audio'' = Some a" and "b64decode e a = Inr audio_data"
    and "process_user_audio e b audio_data w = (text_response, audio_response, b1, w1)"
  shows "handle_user_audio e b items w =
           (b1, send_json (if text_response \<noteq> [] \<and> audio_response \<noteq> []
                           then AssistantResponse text_response (b64encode e audio_response) None
                           else ErrorEvent ''Failed to process audio'') w1)"
  using assms by (simp add: handle_user_audio_def)

lemma init_result:
  assumes "VoiceAssistantBackend_init e w0 = (Inr b0, w1)"
  shows "conversation_history b0 = [system_message]"
    and "session_id b0 = now_strftime e (tick w0)"
  using assms by (auto simp: VoiceAssistantBackend_init_def split: if_splits)

lemma get_welcome_audio_result:
  assumes "get_welcome_audio e b w = (audio, b1, w1)"
  shows "conversation_history b1 = conversation_history b @ [welcome_entry (now_isoformat e (tick w))]"
    and "session_id b1 = session_id b"
    and "calls w1 = calls w @ [TextToSpeech WELCOME_MESSAGE]"
    and "sent w1 = sent w"
    and "audio = (case text_to_speech e (Suc (tick w)) WELCOME_MESSAGE of
                    Inr chunks \<Rightarrow> concat chunks | Inl ex \<Rightarrow> [])"
  using assms
  by (auto simp: get_welcome_audio_def synthesize_speech_def Let_def split: sum.splits prod.splits)

text \<open>Every step appends entries that carry a timestamp and a role other than system.\<close>

lemma run_operation_appends:
  assumes "run_operation e x (b, w) = (b', w')"
  shows "\<exists>new. conversation_history b' = conversation_history b @ new \<and>
           (\<forall>m\<in>set new. role m \<noteq> System \<and> timestamp m \<noteq> None) \<and>
           session_id b' = session_id b"
proof (cases x)
  case Welcome
  obtain audio b1 w1 where g: "get_welcome_audio e b w = (audio, b1, w1)"
    by (metis prod_cases3)
  with assms Welcome have "b' = b1" by simp
  then show ?thesis
    using get_welcome_audio_result(1,2) [OF g] by (simp add: welcome_entry_def)
next
  case (UserTurn a)
  obtain ut w1 where t: "transcribe_audio e b a w = (ut, w1)"
    by (metis surj_pair)
  show ?thesis
  proof (cases "ut = []")
    case True
    with t have "process_user_audio e b a w = ([], [], b, w1)"
      using process_user_audio_empty [of e b a w] by simp
    with assms UserTurn have "b' = b" by simp
    then show ?thesis by simp
  next
    case False
    obtain at b1 w3 where g:
      "get_llm_response e b ut (py_print (''User said: '' @ ut) w1) = (at, b1, w3)"
      by (metis prod_cases3)
    obtain aa w5 where s: "synthesize_speech e at (py_print (''Assistant: '' @ at) w3) = (aa, w5)"
      by (metis surj_pair)
    have "process_user_audio e b a w = (at, aa, b1, w5)"
      using t False g s by (rule process_user_audio_nonempty)
    with assms UserTurn have "b' = b1" by simp
    then show ?thesis
      using get_llm_response_result(1,6) [OF g]
      by (auto simp: user_entry_def assistant_entry_def split: sum.splits)
  qed
next
  case Export
  with assms have "b' = b" by (simp split: prod.splits)
  then show ?thesis by simp
qed

lemma run_operations_appends:
  assumes "run_operations e ops (b, w) = (b', w')"
  shows "\<exists>new. conversation_history b' = conversation_history b @ new \<and>
           (\<forall>m\<in>set new. role m \<noteq> System \<and> timestamp m \<noteq> None) \<and>
           session_id b' = session_id b"
  using assms
proof (induction ops arbitrary: b w)
  case Nil
  then show ?case by simp
next
  case (Cons x xs)
  obtain b1 w1 where s: "run_operation e x (b, w) = (b1, w1)"
    by (metis surj_pair)
  with Cons.prems have r: "run_operations e xs (b1, w1) = (b', w')" by simp
  from run_operation_appends [OF s] obtain n1 where
    n1: "conversation_history b1 = conversation_history b @ n1"
      "\<forall>m\<in>set n1. role m \<noteq> System \<and> timestamp m \<noteq> None" "session_id b1 = session_id b"
    by blast
  from Cons.IH [OF r] obtain n2 where
    n2: "conversation_history b' = conversation_history b1 @ n2"
      "\<forall>m\<in>set n2. role m \<noteq> System \<and> timestamp m \<noteq> None" "session_id b' = session_id b1"
    by blast
  have "conversation_history b' = conversation_history b @ (n1 @ n2)"
    using n1(1) n2(1) by simp
  moreover have "\<forall>m\<in>set (n1 @ n2). role m \<noteq> System \<and> timestamp m \<noteq> None"
    using n1(2) n2(2) by auto
  ultimately show ?case using n1(3) n2(3) by metis
qed

lemma session_log_shape:
  assumes "VoiceAssistantBackend_init e w0 = (Inr b0, w1)"
    and "run_operations e ops (b0, w1) = (b, w)"
  obtains rest where "conversation_history b = system_message # rest"
    and "\<forall>m\<in>set rest. role m \<noteq> System \<and> timestamp m \<noteq> None"
    and "session_id b = now_strftime e (tick w0)"
  using run_operations_appends [OF assms(2)] init_result [OF assms(1)] by auto

lemma system_message_role [simp]: "role system_message = System"
  by (simp add: system_message_def)

lemma filter_non_system:
  assumes "\<forall>m\<in>set rest. role m \<noteq> System \<and> timestamp m \<noteq> None"
  shows "filter (\<lambda>msg. role msg \<noteq> System) (system_message # rest) = rest"
  using assms by (simp add: filter_id_conv)

lemma start_time_of_log:
  assumes "\<forall>m\<in>set rest. role m \<noteq> System \<and> timestamp m \<noteq> None"
  shows "(if length (system_message # rest) > 1
          then (case timestamp ((system_message # rest) ! 1) of
                  None \<Rightarrow> Inl ex
                | Some t \<Rightarrow> Inr (Some t))
          else Inr None) =
         Inr (case rest of [] \<Rightarrow> None | m # ms \<Rightarrow> timestamp m)"
  using assms by (cases rest) auto

lemma save_conversation_result:
  assumes "conversation_history b = system_message # rest"
    and "\<forall>m\<in>set rest. role m \<noteq> System \<and> timestamp m \<noteq> None"
    and "save_conversation e b w = (filename, w')"
  shows "filename =
           (if write_file e (Suc (tick w)) (conversation_filename b) = Written
            then conversation_filename b else [])"
    and "files w' (conversation_filename b) =
           (case write_file e (Suc (tick w)) (conversation_filename b) of
              Written \<Rightarrow>
                Some (Some \<lparr>data_session_id = session_id b,
                            start_time = (case rest of [] \<Rightarrow> None | m # ms \<Rightarrow> timestamp m),
                            end_time = now_isoformat e (tick w),
                            messages = rest\<rparr>)
            | OpenFailed ex \<Rightarrow> files w (conversation_filename b)
            | DumpFailed ex \<Rightarrow> Some None)"
    and "tick w' = tick w + 2" and "sent w' = sent w"
    and "calls w' = calls w @ [WriteFile (conversation_filename b)]"
  using assms(3)
  unfolding save_conversation_def Let_def assms(1) start_time_of_log [OF assms(2)]
    filter_non_system [OF assms(2)]
  by (auto split: write_outcome.splits)


lemma entry_fields [simp]:
  "role (user_entry u t) = User" "content (user_entry u t) = u"
  "timestamp (user_entry u t) = Some t" "msg_type (user_entry u t) = None"
  "role (assistant_entry a t) = Assistant" "content (assistant_entry a t) = a"
  "timestamp (assistant_entry a t) = Some t" "msg_type (assistant_entry a t) = None"
  "role (welcome_entry t) = Assistant" "content (welcome_entry t) = WELCOME_MESSAGE"
  "timestamp (welcome_entry t) = Some t" "msg_type (welcome_entry t) = Some ''welcome''"
  by (simp_all add: user_entry_def assistant_entry_def welcome_entry_def)

lemma loop_body_end_conversation:
  "map_of items ''type'' = Some (JStr ''end_conversation'') \<Longrightarrow>
   loop_body e b (JObj items) w = Inr (handle_end_conversation e b w)"
  by (simp add: loop_body_def)

lemma handle_end_conversation_result:
  assumes "conversation_history b = system_message # rest"
    and "\<forall>m\<in>set rest. role m \<noteq> System \<and> timestamp m \<noteq> None"
    and "handle_end_conversation e b w = (b1, w1)"
  shows "b1 = b" and "tick w1 = tick w + 2"
    and "sent w1 = sent w @
           [ConversationSaved
              (if write_file e (Suc (tick w)) (conversation_filename b) = Written
               then conversation_filename b else [])]"
    and "files w1 (conversation_filename b) =
           (case write_file e (Suc (tick w)) (conversation_filename b) of
              Written \<Rightarrow>
                Some (Some \<lparr>data_session_id = session_id b,
                            start_time = (case rest of [] \<Rightarrow> None | m # ms \<Rightarrow> timestamp m),
                            end_time = now_isoformat e (tick w),
                            messages = rest\<rparr>)
            | OpenFailed ex \<Rightarrow> files w (conversation_filename b)
            | DumpFailed ex \<Rightarrow> Some None)"
proof -
  obtain filename w2 where s: "save_conversation e b w = (filename, w2)"
    by (metis surj_pair)
  note r = save_conversation_result [OF assms(1,2) s]
  have w1: "w1 = py_print (''Conversation ended and saved: '' @ filename)
                   (send_json (ConversationSaved filename) w2)" and b1: "b1 = b"
    using assms(3) by (simp_all add: handle_end_conversation_def s Let_def)
  show "b1 = b" by (rule b1)
  show "tick w1 = tick w + 2" using r(3) by (simp add: w1)
  show "sent w1 = sent w @
           [ConversationSaved
              (if write_file e (Suc (tick w)) (conversation_filename b) = Written
               then conversation_filename b else [])]"
    using r(1,4) by (simp add: w1)
  show "files w1 (conversation_filename b) =
           (case write_file e (Suc (tick w)) (conversation_filename b) of
              Written \<Rightarrow>
                Some (Some \<lparr>data_session_id = session_id b,
                            start_time = (case rest of [] \<Rightarrow> None | m # ms \<Rightarrow> timestamp m),
                            end_time = now_isoformat e (tick w),
                            messages = rest\<rparr>)
            | OpenFailed ex \<Rightarrow> files w (conversation_filename b)
            | DumpFailed ex \<Rightarrow> Some None)"
    using r(2) by (simp add: w1)
qed


subsection \<open>The history along the loop of the endpoint\<close>

lemma loop_body_appends:
  assumes "loop_body e b data w = Inr (b', w')"
  shows "\<exists>new. conversation_history b' = conversation_history b @ new \<and>
           (\<forall>m\<in>set new. role m \<noteq> System \<and> timestamp m \<noteq> None) \<and>
           session_id b' = session_id b"
proof (cases data)
  case (JObj items)
  show ?thesis
  proof (cases "map_of items ''type'' = Some (JStr ''user_audio'')")
    case True
    with assms JObj have h: "handle_user_audio e b items w = (b', w')"
      by (simp add: loop_body_def)
    show ?thesis
    proof (cases "map_of items ''audio''")
      case None
      with h have "b' = b" by (simp add: handle_user_audio_def)
      then show ?thesis by simp
    next
      case (Some a)
      show ?thesis
      proof (cases "b64decode e a")
        case (Inl ex)
        with h Some have "b' = b" by (simp add: handle_user_audio_def)
        then show ?thesis by simp
      next
        case (Inr audio_data)
        obtain t au b1 w1 where p: "process_user_audio e b audio_data w = (t, au, b1, w1)"
          by (metis prod_cases4)
        from h have "b' = b1"
          by (simp add: handle_user_audio_decoded [OF Some Inr p])
        moreover have "run_operation e (UserTurn audio_data) (b, w) = (b1, w1)"
          by (simp add: p)
        ultimately show ?thesis
          using run_operation_appends by blast
      qed
    qed
  next
    case False
    with assms JObj have "b' = b"
      by (auto simp: loop_body_def handle_end_conversation_def Let_def split: if_splits prod.splits)
    then show ?thesis by simp
  qed
qed (use assms in \<open>simp_all add: loop_body_def\<close>)

lemma receive_loop_appends:
  assumes "receive_loop e sid b inputs (sessions, w) = (Running, sessions', w')"
    and "sessions sid = Some b"
  shows "\<exists>b' new. sessions' sid = Some b' \<and>
           conversation_history b' = conversation_history b @ new \<and>
           (\<forall>m\<in>set new. role m \<noteq> System \<and> timestamp m \<noteq> None) \<and>
           session_id b' = session_id b"
  using assms
proof (induction inputs arbitrary: b sessions w)
  case Nil
  then show ?case by simp
next
  case (Cons x xs)
  show ?case
  proof (cases x)
    case (Received data)
    show ?thesis
    proof (cases "loop_body e b data w")
      case (Inl ex)
      with Cons.prems(1) Received show ?thesis by simp
    next
      case (Inr r)
      obtain b1 w1 where r: "r = (b1, w1)" by (metis surj_pair)
      from Cons.prems(1) Received Inr r
      have l: "receive_loop e sid b1 xs (sessions(sid \<mapsto> b1), w1) = (Running, sessions', w')"
        by simp
      have "(sessions(sid \<mapsto> b1)) sid = Some b1" by simp
      from Cons.IH [OF l this] obtain b' n2 where
        2: "sessions' sid = Some b'" "conversation_history b' = conversation_history b1 @ n2"
          "\<forall>m\<in>set n2. role m \<noteq> System \<and> timestamp m \<noteq> None" "session_id b' = session_id b1"
        by blast
      from loop_body_appends [OF Inr [unfolded r]] obtain n1 where
        1: "conversation_history b1 = conversation_history b @ n1"
          "\<forall>m\<in>set n1. role m \<noteq> System \<and> timestamp m \<noteq> None" "session_id b1 = session_id b"
        by blast
      have "conversation_history b' = conversation_history b @ (n1 @ n2)"
        using 1(1) 2(2) by simp
      moreover have "\<forall>m\<in>set (n1 @ n2). role m \<noteq> System \<and> timestamp m \<noteq> None"
        using 1(2) 2(3) by auto
      ultimately show ?thesis
        using 2(1,4) 1(3) by metis
    qed
  next
    case Disconnected
    with Cons.prems(1) show ?thesis by simp
  next
    case (Failed ex)
    with Cons.prems(1) show ?thesis by simp
  qed
qed

lemma endpoint_log_shape:
  assumes "websocket_endpoint e sid inputs (sessions, w) = (Running, sessions', w')"
  shows "\<exists>b rest. sessions' sid = Some b \<and> conversation_history b = system_message # rest \<and>
           (\<forall>m\<in>set rest. role m \<noteq> System \<and> timestamp m \<noteq> None)"
proof (cases "VoiceAssistantBackend_init e w")
  case (Pair r w1)
  show ?thesis
  proof (cases r)
    case (Inl ex)
    with assms Pair show ?thesis by (simp add: websocket_endpoint_def)
  next
    case (Inr b0)
    define w3 where "w3 = send_json (Connected (str_int sid))
                            (py_print (''Client connected: '' @ str_int sid) w1)"
    obtain audio b1 w4 where g: "get_welcome_audio e b0 w3 = (audio, b1, w4)"
      by (metis prod_cases3)
    define w5 where
      "w5 = send_json (AssistantResponse GREETING_TEXT (b64encode e audio) (Some True)) w4"
    have l: "receive_loop e sid b1 inputs (sessions(sid \<mapsto> b1), w5) = (Running, sessions', w')"
      using assms g unfolding w3_def w5_def
      by (simp add: websocket_endpoint_def Pair Inr Let_def)
    have "(sessions(sid \<mapsto> b1)) sid = Some b1" by simp
    from receive_loop_appends [OF l this] obtain b' new where
      n: "sessions' sid = Some b'" "conversation_history b' = conversation_history b1 @ new"
        "\<forall>m\<in>set new. role m \<noteq> System \<and> timestamp m \<noteq> None"
      by blast
    have h1: "conversation_history b1 =
                system_message # [welcome_entry (now_isoformat e (tick w3))]"
      using get_welcome_audio_result(1) [OF g] init_result(1) [OF Pair [unfolded Inr]] by simp
    have "conversation_history b' =
            system_message # (welcome_entry (now_isoformat e (tick w3)) # new)"
      using n(2) h1 by simp
    moreover have "\<forall>m\<in>set (welcome_entry (now_isoformat e (tick w3)) # new).
                     role m \<noteq> System \<and> timestamp m \<noteq> None"
      using n(3) by simp
    ultimately show ?thesis using n(1) by blast
  qed
qed

subsection \<open>Evaluation of the samples\<close>

lemmas sample_defs = sample_env_def env_generator_down_def env_synthesis_down_def env_silence_def
  sample_world_def sample_backend_def sample_event_def

lemmas stage_defs = transcribe_audio_def get_llm_response_def synthesize_speech_def
  process_user_audio_def external_def read_clock_def py_print_def send_json_def

lemmas app_defs = VoiceAssistantBackend_init_def get_welcome_audio_def save_conversation_def
  conversation_filename_def truthy_def

lemma sample_session_values:
  "conversation_history (fst sample_session) =
     [system_message,
      welcome_entry ''2024-01-01T12:00:01'',
      user_entry ''What time is it?'' ''2024-01-01T12:00:04'',
      assistant_entry ''It is noon.'' ''2024-01-01T12:00:06'']"
  "session_id (fst sample_session) = ''20240101_120000''"
  "tick (snd sample_session) = 8"
  by (simp_all add: sample_session_def app_defs stage_defs sample_defs Let_def)

lemma sample_init:
  "VoiceAssistantBackend_init sample_env sample_world =
     (Inr sample_backend, read_clock sample_world)"
  by (simp add: app_defs sample_defs)

lemma sample_run:
  "run_operations sample_env [Welcome, UserTurn [1]] (sample_backend, read_clock sample_world) =
     (fst sample_session, snd sample_session)"
  by (simp only: sample_session_def prod.collapse)


subsection \<open>The history after a user turn\<close>

text \<open>
  What \<open>process_user_audio\<close> leaves in the history when the transcription is not
  empty: the user entry, and after it the assistant entry only where the completion call
  has returned. The transcription is interaction \<open>tick w\<close>, the clock is read at
  \<open>tick w + 1\<close>, the completion is asked at \<open>tick w + 2\<close>.
\<close>

lemma process_user_audio_history:
  assumes "fst (transcribe_audio e b audio_data w) = user_text" and "user_text \<noteq> []"
  shows "case process_user_audio e b audio_data w of
           (assistant_text, assistant_audio, b', w') \<Rightarrow>
             (let entry = user_entry user_text (now_isoformat e (tick w + 1))
              in case chat_completion e (tick w + 2)
                        (context_window (conversation_history b @ [entry])) of
                   Inr reply \<Rightarrow>
                     conversation_history b' =
                       conversation_history b @
                         [entry, assistant_entry reply (now_isoformat e (tick w + 3))] \<and>
                     assistant_text = reply
                 | Inl ex \<Rightarrow>
                     conversation_history b' = conversation_history b @ [entry] \<and>
                     assistant_text = FALLBACK_RESPONSE)"
proof -
  obtain w1 where t: "transcribe_audio e b audio_data w = (user_text, w1)"
    using assms(1) by (cases "transcribe_audio e b audio_data w") auto
  obtain at b1 w3 where g:
    "get_llm_response e b user_text (py_print (''User said: '' @ user_text) w1) = (at, b1, w3)"
    by (metis prod_cases3)
  obtain aa w5 where s: "synthesize_speech e at (py_print (''Assistant: '' @ at) w3) = (aa, w5)"
    by (metis surj_pair)
  have p: "process_user_audio e b audio_data w = (at, aa, b1, w5)"
    using t assms(2) g s by (rule process_user_audio_nonempty)
  have k: "tick w1 = Suc (tick w)"
    using t by (rule transcribe_audio_world)
  show ?thesis
    using get_llm_response_result(1,2)[OF g] k
    by (simp add: p Let_def eval_nat_numeral split: sum.splits)
qed

lemma process_user_audio_history_sample:
  "conversation_history (fst (snd (snd (process_user_audio sample_env sample_backend [1] sample_world)))) =
     [system_message,
      user_entry ''What time is it?'' ''2024-01-01T12:00:01'',
      assistant_entry ''It is noon.'' ''2024-01-01T12:00:03'']"
proof -
  have h: "fst (transcribe_audio sample_env sample_backend [1] sample_world) = ''What time is it?''"
    by (simp add: transcribe_audio_def sample_defs)
  have n: "''What time is it?'' \<noteq> []" by simp
  show ?thesis
    using process_user_audio_history [OF h n]
    by (simp add: sample_defs split: prod.splits)
qed

section \<open>The claims\<close>

subsection \<open>C1: entries appended by a user turn\<close>

text \<open>
  Claim C1: a \<open>user_audio\<close> event whose transcription is not empty appends two
  entries, one of the user and one of the assistant, also when the completion call fails
  and the fallback text is the reply. The code does not do so in that case. Where the
  completion call raises, the \<open>except\<close> branch of \<open>get_llm_response\<close> returns the
  fallback text without appending it, although the branch for a reply and
  \<open>get_welcome_audio\<close> append every text the assistant speaks: the transcription is not
  empty, the fallback text is returned, and the history has grown by the user entry
  alone. \<open>process_user_audio_history\<close> shows the same for every input.
\<close>

theorem generator_failure_appends_one_entry:
  "fst (transcribe_audio env_generator_down sample_backend [1] sample_world) = ''What time is it?'' \<and>
   fst (process_user_audio env_generator_down sample_backend [1] sample_world) = FALLBACK_RESPONSE \<and>
   conversation_history
     (fst (snd (snd (process_user_audio env_generator_down sample_backend [1] sample_world)))) =
     conversation_history sample_backend @
       [user_entry ''What time is it?'' ''2024-01-01T12:00:01''] \<and>
   length (conversation_history
     (fst (snd (snd (process_user_audio env_generator_down sample_backend [1] sample_world))))) \<noteq>
     length (conversation_history sample_backend) + 2"
  by (simp add: stage_defs sample_defs user_entry_def)

subsection \<open>C2: failed user turns\<close>

text \<open>
  Claim C2, as amended. For a \<open>user_audio\<close> event whose audio decodes: when the
  transcription is empty, or when the synthesis of the assistant text raises or yields no
  audio, the one event sent is the error event with the message
  \<open>Failed to process audio\<close>. When the assistant text is not empty and its synthesis
  yields audio, the one event sent is the assistant response with that text and audio; in
  particular, when the completion call raises and the synthesis of the fallback text
  yields audio, the assistant response carries the fallback text, so a failure of the
  completion call is not a cause of the error event. In every case the loop goes on to
  the next \<open>receive_json\<close> with the session still registered.
\<close>

theorem failed_user_audio_emits_error:
  assumes "map_of items ''type'' = Some (JStr ''user_audio'')"
    and "map_of items ''audio'' = Some a" and "b64decode e a = Inr audio_data"
    and "transcribe_audio e b audio_data w = (user_text, w1)"
  shows "case loop_body e b (JObj items) w of
           Inr (b', w') \<Rightarrow>
             (user_text = [] \<or>
              get_llm_response e b user_text (py_print (''User said: '' @ user_text) w1)
                = (assistant_text, b1, w3) \<and>
              (case text_to_speech e (tick w3) assistant_text of
                 Inl ex \<Rightarrow> True | Inr chunks \<Rightarrow> concat chunks = [])
              \<longrightarrow> sent w' = sent w @ [ErrorEvent ''Failed to process audio'']) \<and>
             (user_text \<noteq> [] \<and>
              get_llm_response e b user_text (py_print (''User said: '' @ user_text) w1)
                = (assistant_text, b1, w3) \<and>
              assistant_text \<noteq> [] \<and>
              text_to_speech e (tick w3) assistant_text = Inr spoken \<and> concat spoken \<noteq> []
              \<longrightarrow> sent w' = sent w @
                    [AssistantResponse assistant_text (b64encode e (concat spoken)) None]) \<and>
             (user_text \<noteq> [] \<and>
              chat_completion e (tick w + 2)
                (context_window (conversation_history b @
                   [user_entry user_text (now_isoformat e (tick w + 1))])) = Inl err \<and>
              text_to_speech e (tick w + 3) FALLBACK_RESPONSE = Inr spoken \<and> concat spoken \<noteq> []
              \<longrightarrow> sent w' = sent w @
                    [AssistantResponse FALLBACK_RESPONSE (b64encode e (concat spoken)) None]) \<and>
             receive_loop e sid b (Received (JObj items) # rest) (sessions, w) =
               receive_loop e sid b' rest (sessions(sid \<mapsto> b'), w')
         | Inl ex \<Rightarrow> False"
proof -
  obtain tr ar b' w' where p: "process_user_audio e b audio_data w = (tr, ar, b', w')"
    by (metis prod_cases4)
  note h = handle_user_audio_decoded [OF assms(2,3) p]
  note l = loop_body_user_audio [OF assms(1), of e b w]
  note tw = transcribe_audio_world [OF assms(4)]
  have sent_p: "sent w' = sent w"
  proof (cases "user_text = []")
    case True
    with assms(4) p process_user_audio_empty [of e b audio_data w] tw(3)
    show ?thesis by simp
  next
    case False
    obtain at b2 w4 where g:
      "get_llm_response e b user_text (py_print (''User said: '' @ user_text) w1) = (at, b2, w4)"
      by (metis prod_cases3)
    obtain aa w5 where s: "synthesize_speech e at (py_print (''Assistant: '' @ at) w4) = (aa, w5)"
      by (metis surj_pair)
    have "process_user_audio e b audio_data w = (at, aa, b2, w5)"
      using assms(4) False g s by (rule process_user_audio_nonempty)
    with p have "w' = w5" by simp
    then show ?thesis
      using synthesize_speech_world(3) [OF s] get_llm_response_result(4) [OF g] tw(3) by simp
  qed
  have fail: "tr = [] \<or> ar = []"
    if "user_text = [] \<or>
        get_llm_response e b user_text (py_print (''User said: '' @ user_text) w1)
          = (assistant_text, b1, w3) \<and>
        (case text_to_speech e (tick w3) assistant_text of
           Inl ex \<Rightarrow> True | Inr chunks \<Rightarrow> concat chunks = [])"
  proof (cases "user_text = []")
    case True
    with assms(4) p process_user_audio_empty [of e b audio_data w] show ?thesis by simp
  next
    case False
    with that have g: "get_llm_response e b user_text (py_print (''User said: '' @ user_text) w1)
          = (assistant_text, b1, w3)"
      and d: "case text_to_speech e (tick w3) assistant_text of
           Inl ex \<Rightarrow> True | Inr chunks \<Rightarrow> concat chunks = []"
      by simp_all
    obtain aa w5 where s:
      "synthesize_speech e assistant_text (py_print (''Assistant: '' @ assistant_text) w3) = (aa, w5)"
      by (metis surj_pair)
    have "process_user_audio e b audio_data w = (assistant_text, aa, b1, w5)"
      using assms(4) False g s by (rule process_user_audio_nonempty)
    with p have "ar = aa" by simp
    moreover have "aa = []"
      using synthesize_speech_world(5) [OF s] d by (simp split: sum.splits)
    ultimately show ?thesis by simp
  qed
  have answer: "tr = at \<and> ar = concat ch"
    if n: "user_text \<noteq> []"
      and g: "get_llm_response e b user_text (py_print (''User said: '' @ user_text) w1)
                = (at, b2, w4)"
      and t: "text_to_speech e (tick w4) at = Inr ch"
    for at b2 w4 ch
  proof -
    obtain aa w5 where s: "synthesize_speech e at (py_print (''Assistant: '' @ at) w4) = (aa, w5)"
      by (metis surj_pair)
    have "process_user_audio e b audio_data w = (at, aa, b2, w5)"
      using assms(4) n g s by (rule process_user_audio_nonempty)
    with p have "tr = at" "ar = aa" by simp_all
    moreover have "aa = concat ch"
      using synthesize_speech_world(5) [OF s] t by simp
    ultimately show ?thesis by simp
  qed
  have masked: "tr = FALLBACK_RESPONSE \<and> ar = concat spoken"
    if n: "user_text \<noteq> []"
      and c: "chat_completion e (tick w + 2)
                (context_window (conversation_history b @
                   [user_entry user_text (now_isoformat e (tick w + 1))])) = Inl err"
      and t: "text_to_speech e (tick w + 3) FALLBACK_RESPONSE = Inr spoken"
  proof -
    obtain at b2 w4 where g:
      "get_llm_response e b user_text (py_print (''User said: '' @ user_text) w1) = (at, b2, w4)"
      by (metis prod_cases3)
    have c': "chat_completion e (Suc (tick (py_print (''User said: '' @ user_text) w1)))
             (context_window (conversation_history b @
                [user_entry user_text
                   (now_isoformat e (tick (py_print (''User said: '' @ user_text) w1)))]))
           = Inl err"
      using c tw(1) by simp
    have at: "at = FALLBACK_RESPONSE"
      using get_llm_response_result(2) [OF g] c' by simp
    have "tick w4 = tick w + 3"
      using get_llm_response_result(7) [OF g] c' tw(1) by simp
    with t at have "text_to_speech e (tick w4) at = Inr spoken" by simp
    from answer [OF n g this] at show ?thesis by simp
  qed
  have ne: "FALLBACK_RESPONSE \<noteq> []" by (simp add: FALLBACK_RESPONSE_def)
  show ?thesis
    using fail sent_p answer [of assistant_text b1 w3 spoken] masked ne by (auto simp: l h)
qed

theorem failed_user_audio_emits_error_witness:
  "(case loop_body env_synthesis_down sample_backend (JObj sample_event) sample_world of
      Inr (b', w') \<Rightarrow>
        sent w' = [ErrorEvent ''Failed to process audio''] \<and>
        receive_loop env_synthesis_down 1405 sample_backend [Received (JObj sample_event)]
          (Map.empty, sample_world) = (Running, [1405 \<mapsto> b'], w')
    | Inl ex \<Rightarrow> False) \<and>
   (case loop_body env_generator_down sample_backend (JObj sample_event) sample_world of
      Inr (b', w') \<Rightarrow> sent w' = [AssistantResponse FALLBACK_RESPONSE ''AQI='' None]
    | Inl ex \<Rightarrow> False)"
proof -
  let ?w1 = "snd (transcribe_audio env_synthesis_down sample_backend [1] sample_world)"
  let ?g = "get_llm_response env_synthesis_down sample_backend ''What time is it?''
              (py_print (''User said: '' @ ''What time is it?'') ?w1)"
  let ?v1 = "snd (transcribe_audio env_generator_down sample_backend [1] sample_world)"
  have 1: "map_of sample_event ''type'' = Some (JStr ''user_audio'')"
    and 2: "map_of sample_event ''audio'' = Some (JStr ''AQ=='')"
    and 3: "b64decode env_synthesis_down (JStr ''AQ=='') = Inr [1]"
    and g3: "b64decode env_generator_down (JStr ''AQ=='') = Inr [1]"
    by (simp_all add: sample_defs)
  have 4: "transcribe_audio env_synthesis_down sample_backend [1] sample_world =
             (''What time is it?'', ?w1)"
    by (simp add: transcribe_audio_def sample_defs)
  have 5: "?g = (''It is noon.'', fst (snd ?g), snd (snd ?g))"
    by (simp add: get_llm_response_def sample_defs)
  have 6: "case text_to_speech env_synthesis_down (tick (snd (snd ?g))) ''It is noon.'' of
             Inl ex \<Rightarrow> True | Inr chunks \<Rightarrow> concat chunks = []"
    by (simp add: sample_defs)
  have first: "case loop_body env_synthesis_down sample_backend (JObj sample_event) sample_world of
      Inr (b', w') \<Rightarrow>
        sent w' = [ErrorEvent ''Failed to process audio''] \<and>
        receive_loop env_synthesis_down 1405 sample_backend [Received (JObj sample_event)]
          (Map.empty, sample_world) = (Running, [1405 \<mapsto> b'], w')
    | Inl ex \<Rightarrow> False"
    using failed_user_audio_emits_error [OF 1 2 3 4, where assistant_text = "''It is noon.''"
        and ?b1.0 = "fst (snd ?g)" and ?w3.0 = "snd (snd ?g)" and sid = 1405 and rest = "[]"
        and sessions = Map.empty] 5 6
    by (auto simp: sample_world_def split: sum.splits)
  have 7: "transcribe_audio env_generator_down sample_backend [1] sample_world =
             (''What time is it?'', ?v1)"
    by (simp add: transcribe_audio_def sample_defs)
  have 8: "chat_completion env_generator_down (tick sample_world + 2)
             (context_window (conversation_history sample_backend @
                [user_entry ''What time is it?''
                   (now_isoformat env_generator_down (tick sample_world + 1))])) =
             Inl ''Connection error.''"
    and 9: "text_to_speech env_generator_down (tick sample_world + 3) FALLBACK_RESPONSE =
              Inr [[1], [2]]"
    and 10: "b64encode env_generator_down (concat [[1], [2]]) = ''AQI=''"
    by (simp_all add: sample_defs)
  have second: "case loop_body env_generator_down sample_backend (JObj sample_event) sample_world of
      Inr (b', w') \<Rightarrow> sent w' = [AssistantResponse FALLBACK_RESPONSE ''AQI='' None]
    | Inl ex \<Rightarrow> False"
    using failed_user_audio_emits_error [OF 1 2 g3 7, where err = "''Connection error.''"
        and spoken = "[[1], [2]]"] 8 9 10
    by (auto simp: sample_world_def split: sum.splits)
  from first second show ?thesis by (rule conjI)
qed

text \<open>
  Claim C2 as stated fails where the completion call raises and the synthesis works: the
  event sent is an assistant response carrying the fallback text, not an error event.
\<close>

theorem generator_failure_sends_assistant_response:
  "map_of sample_event ''type'' = Some (JStr ''user_audio'') \<and>
   chat_completion env_generator_down 2
     (context_window [system_message, user_entry ''What time is it?'' ''2024-01-01T12:00:01'']) =
     Inl ''Connection error.'' \<and>
   (case loop_body env_generator_down sample_backend (JObj sample_event) sample_world of
      Inr (b', w') \<Rightarrow> sent w' = [AssistantResponse FALLBACK_RESPONSE ''AQI='' None]
    | Inl ex \<Rightarrow> False)"
  by (simp add: loop_body_def handle_user_audio_def stage_defs sample_defs FALLBACK_RESPONSE_def)

subsection \<open>C3: the fallback text\<close>

text \<open>
  Claim C3. When the completion call raises, \<open>process_user_audio\<close> returns the fixed
  fallback text, which is not empty, and the synthesis service is called with that text:
  the calls of the turn are the transcription, the completion and the synthesis of the
  fallback, and the audio returned is what that synthesis gave.
\<close>

theorem generator_failure_is_masked:
  assumes "fst (transcribe_audio e b audio_data w) = user_text" and "user_text \<noteq> []"
    and "chat_completion e (tick w + 2)
           (context_window (conversation_history b @
              [user_entry user_text (now_isoformat e (tick w + 1))])) = Inl ex"
  shows "case process_user_audio e b audio_data w of
           (assistant_text, assistant_audio, b', w') \<Rightarrow>
             assistant_text = FALLBACK_RESPONSE \<and> FALLBACK_RESPONSE \<noteq> [] \<and>
             calls w' = calls w @
               [Transcribe (''temp_audio_'' @ session_id b @ ''.wav'') audio_data,
                ChatCompletion (context_window (conversation_history b @
                  [user_entry user_text (now_isoformat e (tick w + 1))])),
                TextToSpeech FALLBACK_RESPONSE] \<and>
             assistant_audio =
               (case text_to_speech e (tick w + 3) FALLBACK_RESPONSE of
                  Inr chunks \<Rightarrow> concat chunks | Inl ex' \<Rightarrow> [])"
proof -
  from assms(1,2) obtain w1 at b1 w3 aa w5 where
    t: "transcribe_audio e b audio_data w = (user_text, w1)" and
    g: "get_llm_response e b user_text (py_print (''User said: '' @ user_text) w1) = (at, b1, w3)" and
    s: "synthesize_speech e at (py_print (''Assistant: '' @ at) w3) = (aa, w5)" and
    p: "process_user_audio e b audio_data w = (at, aa, b1, w5)"
    by (rule process_user_audio_stages)
  note tw = transcribe_audio_world [OF t]
  have c: "chat_completion e (Suc (tick (py_print (''User said: '' @ user_text) w1)))
             (context_window (conversation_history b @
                [user_entry user_text (now_isoformat e (tick (py_print (''User said: '' @ user_text) w1)))]))
           = Inl ex"
    using assms(3) tw(1) by simp
  have at: "at = FALLBACK_RESPONSE"
    using get_llm_response_result(2) [OF g] c by simp
  have cg: "calls w3 = calls w @
      [Transcribe (''temp_audio_'' @ session_id b @ ''.wav'') audio_data,
       ChatCompletion (context_window (conversation_history b @
         [user_entry user_text (now_isoformat e (tick w + 1))]))]"
    using get_llm_response_result(3) [OF g] tw(1,2) by simp
  have tg: "tick w3 = tick w + 3"
    using get_llm_response_result(7) [OF g] c tw(1) by simp
  have "FALLBACK_RESPONSE \<noteq> []" by (simp add: FALLBACK_RESPONSE_def)
  then show ?thesis
    using synthesize_speech_world(2,5) [OF s] at cg tg by (simp add: p)
qed

theorem generator_failure_is_masked_witness:
  "process_user_audio env_generator_down sample_backend [1] sample_world =
     (FALLBACK_RESPONSE, [1, 2],
      fst (snd (snd (process_user_audio env_generator_down sample_backend [1] sample_world))),
      snd (snd (snd (process_user_audio env_generator_down sample_backend [1] sample_world)))) \<and>
   last (calls (snd (snd (snd (process_user_audio env_generator_down sample_backend [1] sample_world)))))
     = TextToSpeech FALLBACK_RESPONSE"
proof -
  have h: "fst (transcribe_audio env_generator_down sample_backend [1] sample_world) = ''What time is it?''"
    by (simp add: transcribe_audio_def sample_defs)
  have n: "''What time is it?'' \<noteq> []" by simp
  have c: "chat_completion env_generator_down (tick sample_world + 2)
           (context_window (conversation_history sample_backend @
              [user_entry ''What time is it?'' (now_isoformat env_generator_down (tick sample_world + 1))]))
            = Inl ''Connection error.''"
    by (simp add: sample_defs)
  show ?thesis
    using generator_failure_is_masked [OF h n c]
    by (simp add: sample_defs split: prod.splits)
qed

subsection \<open>C4: the bounded context window\<close>

text \<open>
  Claim C4. For a history made of the system message and \<open>N\<close> other entries, the
  window is the system message followed by the last \<open>min 10 N\<close> of the others in their
  order, \<open>min 10 N + 1\<close> messages in all. \<open>get_llm_response\<close> hands the completion
  call the window of the history with the new user entry, and the history it leaves still
  starts with every entry it had, the user entry after them.
\<close>

theorem bounded_context_window:
  assumes "role sys = System" and "\<forall>m\<in>set rest. role m \<noteq> System"
  shows "context_window (sys # rest) =
           api_message_of sys #
             map api_message_of (drop (length rest - MAX_CONVERSATION_HISTORY) rest) \<and>
         length (context_window (sys # rest)) = min MAX_CONVERSATION_HISTORY (length rest) + 1 \<and>
         api_role (hd (context_window (sys # rest))) = System \<and>
         (\<forall>m\<in>set (tl (context_window (sys # rest))). api_role m \<noteq> System) \<and>
         (case get_llm_response e b user_message w of
            (reply, b', w') \<Rightarrow>
              calls w' = calls w @
                [ChatCompletion (context_window (conversation_history b @
                   [user_entry user_message (now_isoformat e (tick w))]))] \<and>
              take (length (conversation_history b) + 1) (conversation_history b') =
                conversation_history b @ [user_entry user_message (now_isoformat e (tick w))])"
proof -
  note c = context_window_Cons [of sys rest]
  have 3: "api_role (hd (context_window (sys # rest))) = System"
    using assms(1) by (simp add: c api_message_of_def)
  have 4: "\<forall>m\<in>set (tl (context_window (sys # rest))). api_role m \<noteq> System"
    using assms(2) by (auto simp: c api_message_of_def dest: in_set_dropD)
  obtain reply b' w' where g: "get_llm_response e b user_message w = (reply, b', w')"
    by (metis prod_cases3)
  have 5: "take (length (conversation_history b) + 1) (conversation_history b') =
             conversation_history b @ [user_entry user_message (now_isoformat e (tick w))]"
    using get_llm_response_result(1) [OF g] by simp
  show ?thesis
    using c length_context_window [of sys rest] 3 4 5 get_llm_response_result(3) [OF g]
    by (simp add: g)
qed

theorem bounded_context_window_witness:
  "role system_message = System \<and> list_all (\<lambda>m. role m \<noteq> System) sample_turns \<and>
   length sample_turns = 12 \<and>
   map api_content (context_window (system_message # sample_turns)) =
     [SYSTEM_PROMPT, ''c'', ''d'', ''e'', ''f'', ''g'', ''h'', ''i'', ''j'', ''k'', ''l''] \<and>
   length (context_window (system_message # sample_turns)) = 11"
proof -
  have r: "role system_message = System" by simp
  have n: "\<forall>m\<in>set sample_turns. role m \<noteq> System"
    by (simp add: sample_turns_def)
  have l: "length sample_turns = 12"
    by (simp add: sample_turns_def)
  have d: "drop 2 sample_turns = map (\<lambda>c. user_entry [c] ''2024-01-01T12:00:00'') ''cdefghijkl''"
    by (simp add: sample_turns_def)
  show ?thesis
    using bounded_context_window [OF r n] r n
    by (simp add: l d MAX_CONVERSATION_HISTORY_def api_message_of_def system_message_def
        list_all_iff)
qed

subsection \<open>C5: empty transcription\<close>

text \<open>
  Claim C5. When the transcription call raises, or gives no text, or gives the empty
  text, the turn ends after the transcription: the backend is unchanged, the only call
  made is the transcription, and the event sent is the error event.
\<close>

theorem empty_transcription_short_circuits:
  assumes "map_of items ''type'' = Some (JStr ''user_audio'')"
    and "map_of items ''audio'' = Some a" and "b64decode e a = Inr audio_data"
    and "isl (transcribe e (tick w) audio_data) \<or>
         transcribe e (tick w) audio_data = Inr None \<or>
         transcribe e (tick w) audio_data = Inr (Some [])"
  shows "case loop_body e b (JObj items) w of
           Inr (b', w') \<Rightarrow>
             b' = b \<and>
             calls w' = calls w @ [Transcribe (''temp_audio_'' @ session_id b @ ''.wav'') audio_data] \<and>
             sent w' = sent w @ [ErrorEvent ''Failed to process audio'']
         | Inl ex \<Rightarrow> False"
proof -
  have t: "fst (transcribe_audio e b audio_data w) = []"
    using assms(4) by (auto simp: transcribe_audio_text isl_def)
  obtain w1 where w1: "transcribe_audio e b audio_data w = ([], w1)"
    using t by (cases "transcribe_audio e b audio_data w") auto
  have p: "process_user_audio e b audio_data w = ([], [], b, w1)"
    using process_user_audio_empty [OF t] w1 by simp
  show ?thesis
    using transcribe_audio_world(2,3) [OF w1]
    by (simp add: loop_body_user_audio [OF assms(1)] handle_user_audio_decoded [OF assms(2,3) p])
qed

theorem empty_transcription_short_circuits_witness:
  "loop_body env_silence sample_backend (JObj sample_event) sample_world =
     Inr (sample_backend,
          sample_world\<lparr>tick := 1,
            calls := [Transcribe ''temp_audio_20240101_120000.wav'' [1]],
            sent := [ErrorEvent ''Failed to process audio'']\<rparr>)"
proof -
  have 1: "map_of sample_event ''type'' = Some (JStr ''user_audio'')"
    and 2: "map_of sample_event ''audio'' = Some (JStr ''AQ=='')"
    and 3: "b64decode env_silence (JStr ''AQ=='') = Inr [1]"
    and 4: "isl (transcribe env_silence (tick sample_world) [1]) \<or>
         transcribe env_silence (tick sample_world) [1] = Inr None \<or>
         transcribe env_silence (tick sample_world) [1] = Inr (Some [])"
    by (simp_all add: sample_defs)
  show ?thesis
    using empty_transcription_short_circuits [OF 1 2 3 4, of sample_backend]
    by (simp add: sample_defs loop_body_def handle_user_audio_def stage_defs)
qed

subsection \<open>C6: the system message\<close>

text \<open>
  Claim C6. After \<open>__init__\<close> and any sequence of greetings, user turns and exports,
  the history starts with the system message that \<open>__init__\<close> put there, no other entry
  has the system role, and a record written by \<open>save_conversation\<close> holds no entry with
  the system role. The same holds for the backend the endpoint keeps in the registry,
  after any events received.
\<close>

theorem system_message_invariant:
  assumes "VoiceAssistantBackend_init e w0 = (Inr b0, w1)"
    and "run_operations e ops (b0, w1) = (b, w)"
  shows "conversation_history b0 = [system_message] \<and>
         role system_message = System \<and>
         take 1 (conversation_history b) = conversation_history b0 \<and>
         filter (\<lambda>m. role m = System) (conversation_history b) = [system_message] \<and>
         (\<forall>w2. case save_conversation e b w2 of
                 (filename, w3) \<Rightarrow>
                   filename \<noteq> [] \<longrightarrow>
                   (case files w3 filename of
                      Some (Some d) \<Rightarrow> \<forall>m\<in>set (messages d). role m \<noteq> System
                    | _ \<Rightarrow> False)) \<and>
         (\<forall>sid inputs sessions w2 sessions1 w3.
            websocket_endpoint e sid inputs (sessions, w2) = (Running, sessions1, w3) \<longrightarrow>
            (case sessions1 sid of
               Some b2 \<Rightarrow>
                 take 1 (conversation_history b2) = [system_message] \<and>
                 filter (\<lambda>m. role m = System) (conversation_history b2) = [system_message]
             | None \<Rightarrow> False))"
proof -
  from assms obtain rest where
    h: "conversation_history b = system_message # rest" and
    r: "\<forall>m\<in>set rest. role m \<noteq> System \<and> timestamp m \<noteq> None"
    by (rule session_log_shape)
  have 1: "conversation_history b0 = [system_message]"
    using assms(1) by (rule init_result)
  have 2: "take 1 (conversation_history b) = conversation_history b0"
    by (simp add: h 1)
  have 3: "filter (\<lambda>m. role m = System) (conversation_history b) = [system_message]"
    using r by (simp add: h filter_empty_conv)
  have 4: "case save_conversation e b w2 of
             (filename, w3) \<Rightarrow>
               filename \<noteq> [] \<longrightarrow>
               (case files w3 filename of
                  Some (Some d) \<Rightarrow> \<forall>m\<in>set (messages d). role m \<noteq> System
                | _ \<Rightarrow> False)" for w2
  proof -
    obtain filename w3 where s: "save_conversation e b w2 = (filename, w3)"
      by (metis surj_pair)
    show ?thesis
      using save_conversation_result(1,2) [OF h r s] r
      by (auto simp: s split: if_splits write_outcome.splits)
  qed
  have 5: "case sessions1 sid of
             Some b2 \<Rightarrow>
               take 1 (conversation_history b2) = [system_message] \<and>
               filter (\<lambda>m. role m = System) (conversation_history b2) = [system_message]
           | None \<Rightarrow> False"
    if "websocket_endpoint e sid inputs (sessions, w2) = (Running, sessions1, w3)"
    for sid inputs sessions w2 sessions1 w3
  proof -
    from endpoint_log_shape [OF that] obtain b2 rest2 where
      "sessions1 sid = Some b2" "conversation_history b2 = system_message # rest2"
      "\<forall>m\<in>set rest2. role m \<noteq> System \<and> timestamp m \<noteq> None"
      by blast
    then show ?thesis by (simp add: filter_empty_conv)
  qed
  from 1 2 3 4 5 show ?thesis by simp
qed

theorem system_message_invariant_witness:
  "conversation_history
     (fst (run_operations sample_env sample_operations
        (sample_backend, read_clock sample_world))) =
     [system_message,
      welcome_entry ''2024-01-01T12:00:01'',
      user_entry ''What time is it?'' ''2024-01-01T12:00:04'',
      assistant_entry ''It is noon.'' ''2024-01-01T12:00:06''] \<and>
   filter (\<lambda>m. role m = System)
     (conversation_history
        (fst (run_operations sample_env sample_operations
           (sample_backend, read_clock sample_world)))) = [system_message]"
proof -
  have i: "VoiceAssistantBackend_init sample_env sample_world =
             (Inr sample_backend, read_clock sample_world)"
    by (simp add: app_defs sample_defs)
  have r: "run_operations sample_env sample_operations (sample_backend, read_clock sample_world) =
             (fst (run_operations sample_env sample_operations (sample_backend, read_clock sample_world)),
              snd (run_operations sample_env sample_operations (sample_backend, read_clock sample_world)))"
    by (rule prod.collapse [symmetric])
  have c: "conversation_history
     (fst (run_operations sample_env sample_operations
        (sample_backend, read_clock sample_world))) =
     [system_message,
      welcome_entry ''2024-01-01T12:00:01'',
      user_entry ''What time is it?'' ''2024-01-01T12:00:04'',
      assistant_entry ''It is noon.'' ''2024-01-01T12:00:06'']"
    by (simp add: sample_operations_def app_defs stage_defs sample_defs Let_def)
  have f: "filter (\<lambda>m. role m = System)
     (conversation_history
        (fst (run_operations sample_env sample_operations
           (sample_backend, read_clock sample_world)))) = [system_message]"
    using system_message_invariant [OF i r] by (elim conjE)
  from c f show ?thesis by (rule conjI)
qed

subsection \<open>C7: the persisted record\<close>

text \<open>
  Claim C7. For a session reached by any sequence of calls, when the file system accepts
  the write, the file named after the session identifier holds the session identifier,
  the timestamp of the first entry other than the system message as start time (none when
  there is no such entry), the time of the call as end time, and the entries other than
  the system message, unchanged and in their order.
\<close>

theorem export_record_contents:
  assumes "VoiceAssistantBackend_init e w0 = (Inr b0, w1)"
    and "run_operations e ops (b0, w1) = (b, w)"
    and "write_file e (tick w + 1) (''conversation_'' @ session_id b @ ''.json'') = Written"
  shows "case save_conversation e b w of
           (filename, w') \<Rightarrow>
             filename = ''conversation_'' @ session_id b @ ''.json'' \<and>
             session_id b = now_strftime e (tick w0) \<and>
             files w' filename =
               Some (Some
                 \<lparr>data_session_id = session_id b,
                  start_time =
                    (case filter (\<lambda>m. role m \<noteq> System) (conversation_history b) of
                       [] \<Rightarrow> None | m # ms \<Rightarrow> timestamp m),
                  end_time = now_isoformat e (tick w),
                  messages = filter (\<lambda>m. role m \<noteq> System) (conversation_history b)\<rparr>) \<and>
             filter (\<lambda>m. role m \<noteq> System) (conversation_history b) =
               tl (conversation_history b) \<and>
             (\<forall>m\<in>set (tl (conversation_history b)). timestamp m \<noteq> None)"
proof -
  from assms(1,2) obtain rest where
    h: "conversation_history b = system_message # rest" and
    r: "\<forall>m\<in>set rest. role m \<noteq> System \<and> timestamp m \<noteq> None" and
    i: "session_id b = now_strftime e (tick w0)"
    by (rule session_log_shape)
  obtain filename w' where s: "save_conversation e b w = (filename, w')"
    by (metis surj_pair)
  have wr: "write_file e (Suc (tick w)) (conversation_filename b) = Written"
    using assms(3) by (simp add: conversation_filename_def)
  have f: "filename = ''conversation_'' @ session_id b @ ''.json''"
    using save_conversation_result(1) [OF h r s] wr by (simp add: conversation_filename_def)
  have d: "files w' (''conversation_'' @ session_id b @ ''.json'') =
             Some (Some \<lparr>data_session_id = session_id b,
                         start_time = (case rest of [] \<Rightarrow> None | m # ms \<Rightarrow> timestamp m),
                         end_time = now_isoformat e (tick w),
                         messages = rest\<rparr>)"
    using save_conversation_result(2) [OF h r s] wr by (simp add: conversation_filename_def)
  show ?thesis
    using r d by (simp add: s f h i [symmetric] filter_non_system [OF r])
qed

theorem export_record_contents_witness:
  "files (snd (save_conversation sample_env (fst sample_session) (snd sample_session)))
     ''conversation_20240101_120000.json'' =
   Some (Some
     \<lparr>data_session_id = ''20240101_120000'',
      start_time = Some ''2024-01-01T12:00:01'',
      end_time = ''2024-01-01T12:00:08'',
      messages =
        [welcome_entry ''2024-01-01T12:00:01'',
         user_entry ''What time is it?'' ''2024-01-01T12:00:04'',
         assistant_entry ''It is noon.'' ''2024-01-01T12:00:06'']\<rparr>)"
proof -
  have wr: "write_file sample_env (tick (snd sample_session) + 1)
              (''conversation_'' @ session_id (fst sample_session) @ ''.json'') = Written"
    by (simp add: sample_env_def)
  have n: "now_isoformat sample_env 8 = ''2024-01-01T12:00:08''"
    by (simp add: sample_env_def)
  show ?thesis
    using export_record_contents [OF sample_init sample_run wr]
    by (auto simp: case_prod_beta sample_session_values n)
qed

subsection \<open>C8: exporting twice\<close>

text \<open>
  Claim C8. Two \<open>end_conversation\<close> events in a row leave the backend as it was. Each
  answer carries the file name built from the session identifier when the file system
  accepts the write (the empty name otherwise), so both names are equal when both writes
  go through, and the second write replaces the record under that name.
\<close>

theorem end_conversation_twice:
  assumes "VoiceAssistantBackend_init e w0 = (Inr b0, w1)"
    and "run_operations e ops (b0, w1) = (b, w)"
    and "map_of items ''type'' = Some (JStr ''end_conversation'')"
  shows "let filename = ''conversation_'' @ session_id b @ ''.json''
         in case loop_body e b (JObj items) w of
              Inr (b1, w2) \<Rightarrow>
                (case loop_body e b1 (JObj items) w2 of
                   Inr (b2, w3) \<Rightarrow>
                     b1 = b \<and> b2 = b \<and>
                     sent w3 = sent w @
                       [ConversationSaved
                          (if write_file e (tick w + 1) filename = Written then filename else []),
                        ConversationSaved
                          (if write_file e (tick w + 3) filename = Written then filename else [])] \<and>
                     (write_file e (tick w + 3) filename = Written \<longrightarrow>
                      files w3 filename =
                        Some (Some \<lparr>data_session_id = session_id b,
                                    start_time =
                                      (case tl (conversation_history b) of
                                         [] \<Rightarrow> None | m # ms \<Rightarrow> timestamp m),
                                    end_time = now_isoformat e (tick w + 2),
                                    messages = tl (conversation_history b)\<rparr>))
                 | Inl ex \<Rightarrow> False)
            | Inl ex \<Rightarrow> False"
proof -
  from assms(1,2) obtain rest where
    h: "conversation_history b = system_message # rest" and
    r: "\<forall>m\<in>set rest. role m \<noteq> System \<and> timestamp m \<noteq> None"
    by (rule session_log_shape)
  define fn where "fn = ''conversation_'' @ session_id b @ ''.json''"
  have cf: "conversation_filename b = fn"
    by (simp add: fn_def conversation_filename_def)
  obtain b1 w2 where f: "handle_end_conversation e b w = (b1, w2)"
    by (metis surj_pair)
  note f' = handle_end_conversation_result [OF h r f, unfolded cf]
  obtain b2 w3 where g: "handle_end_conversation e b w2 = (b2, w3)"
    by (metis surj_pair)
  note g' = handle_end_conversation_result [OF h r g, unfolded cf]
  have l1: "loop_body e b (JObj items) w = Inr (b, w2)"
    using f f'(1) by (simp add: loop_body_end_conversation [OF assms(3)])
  have l2: "loop_body e b (JObj items) w2 = Inr (b, w3)"
    using g g'(1) by (simp add: loop_body_end_conversation [OF assms(3)])
  have k1: "Suc (tick w) = tick w + 1" and k3: "Suc (tick w2) = tick w + 3"
    using f'(2) by simp_all
  have s1: "sent w2 = sent w @
      [ConversationSaved (if write_file e (tick w + 1) fn = Written then fn else [])]"
    using f'(3) unfolding k1 .
  have s2: "sent w3 = sent w2 @
      [ConversationSaved (if write_file e (tick w + 3) fn = Written then fn else [])]"
    using g'(3) unfolding k3 .
  have d: "files w3 fn =
      (case write_file e (tick w + 3) fn of
         Written \<Rightarrow>
           Some (Some \<lparr>data_session_id = session_id b,
                       start_time = (case rest of [] \<Rightarrow> None | m # ms \<Rightarrow> timestamp m),
                       end_time = now_isoformat e (tick w + 2),
                       messages = rest\<rparr>)
       | OpenFailed ex \<Rightarrow> files w2 fn
       | DumpFailed ex \<Rightarrow> Some None)"
    using g'(4) unfolding f'(2) by (simp add: eval_nat_numeral)
  show ?thesis
    unfolding Let_def fn_def [symmetric]
    by (simp add: l1 l2 s1 s2 d h)
qed

theorem end_conversation_twice_witness:
  "loop_body sample_env (fst sample_session) (JObj end_event) (snd sample_session) =
     Inr (fst sample_session,
          snd (handle_end_conversation sample_env (fst sample_session) (snd sample_session))) \<and>
   sent (snd (handle_end_conversation sample_env (fst sample_session)
           (snd (handle_end_conversation sample_env (fst sample_session) (snd sample_session))))) =
     sent (snd sample_session) @
       [ConversationSaved ''conversation_20240101_120000.json'',
        ConversationSaved ''conversation_20240101_120000.json'']"
proof -
  have t: "map_of end_event ''type'' = Some (JStr ''end_conversation'')"
    by (simp add: end_event_def)
  have l: "loop_body sample_env b (JObj end_event) w = Inr (handle_end_conversation sample_env b w)"
    for b w
    using t by (rule loop_body_end_conversation)
  have wr: "write_file sample_env k f = Written" for k f
    by (simp add: sample_env_def)
  show ?thesis
    using end_conversation_twice [OF sample_init sample_run t]
    by (auto simp: l wr case_prod_beta Let_def sample_session_values prod_eq_iff split: sum.splits)
qed

subsection \<open>C9: disconnect\<close>



subsection \<open>C10: the greeting\<close>

text \<open>
  Claim C10. With the three keys present, a new connection is sent the confirmation and
  then the greeting event, whose text is the literal of \<open>app.py\<close>; the entry appended to
  the history and the text given to the synthesis are \<open>WELCOME_MESSAGE\<close>, a different
  text.
\<close>

theorem welcome_text_differs:
  assumes "truthy (assemblyai_key e)" and "truthy (openai_key e)" and "truthy (elevenlabs_key e)"
  shows "case websocket_endpoint e sid [] (sessions, w) of
           (st, sessions1, w1) \<Rightarrow>
             st = Running \<and>
             sent w1 = sent w @
               [Connected (str_int sid),
                AssistantResponse GREETING_TEXT
                  (b64encode e (case text_to_speech e (tick w + 2) WELCOME_MESSAGE of
                                  Inr chunks \<Rightarrow> concat chunks | Inl ex \<Rightarrow> []))
                  (Some True)] \<and>
             GREETING_TEXT = ''Hello! How may I help you today?'' \<and>
             (case sessions1 sid of
                Some b \<Rightarrow>
                  conversation_history b =
                    [system_message, welcome_entry (now_isoformat e (tick w + 1))]
              | None \<Rightarrow> False) \<and>
             content (welcome_entry (now_isoformat e (tick w + 1))) = WELCOME_MESSAGE \<and>
             calls w1 = calls w @ [TextToSpeech WELCOME_MESSAGE] \<and>
             GREETING_TEXT \<noteq> WELCOME_MESSAGE"
proof -
  define b0 where "b0 = \<lparr>conversation_history = [] @ [system_message],
                          session_id = now_strftime e (tick w)\<rparr>"
  have i: "VoiceAssistantBackend_init e w = (Inr b0, read_clock w)"
    using assms by (simp add: VoiceAssistantBackend_init_def b0_def)
  define w3 where "w3 = send_json (Connected (str_int sid))
                          (py_print (''Client connected: '' @ str_int sid) (read_clock w))"
  obtain audio b1 w4 where g: "get_welcome_audio e b0 w3 = (audio, b1, w4)"
    by (metis prod_cases3)
  note g' = get_welcome_audio_result [OF g]
  have t: "tick w3 = tick w + 1"
    by (simp add: w3_def)
  have ep: "websocket_endpoint e sid [] (sessions, w) =
          (Running, sessions(sid \<mapsto> b1),
           send_json (AssistantResponse GREETING_TEXT (b64encode e audio) (Some True)) w4)"
    using g unfolding w3_def by (simp add: websocket_endpoint_def i Let_def)
  have ne: "GREETING_TEXT \<noteq> WELCOME_MESSAGE"
    by (simp add: GREETING_TEXT_def WELCOME_MESSAGE_def)
  have a: "audio = (case text_to_speech e (tick w + 2) WELCOME_MESSAGE of
                      Inr chunks \<Rightarrow> concat chunks | Inl ex \<Rightarrow> [])"
    using g'(5) by (simp add: t)
  have s4: "sent w4 = sent w @ [Connected (str_int sid)]"
    using g'(4) by (simp add: w3_def)
  have c4: "calls w4 = calls w @ [TextToSpeech WELCOME_MESSAGE]"
    using g'(3) by (simp add: w3_def)
  have h1: "conversation_history b1 =
              [system_message, welcome_entry (now_isoformat e (tick w + 1))]"
    using g'(1) by (simp add: t b0_def)
  show ?thesis
    using ne a by (simp add: ep s4 c4 h1 GREETING_TEXT_def)
qed

theorem welcome_text_differs_witness:
  "sent (snd (snd (websocket_endpoint sample_env 1405 [] (Map.empty, sample_world)))) =
     [Connected ''1405'',
      AssistantResponse ''Hello! How may I help you today?'' ''AQI='' (Some True)] \<and>
   map_option conversation_history
     (fst (snd (websocket_endpoint sample_env 1405 [] (Map.empty, sample_world))) 1405) =
     Some [system_message, welcome_entry ''2024-01-01T12:00:01'']"
proof -
  have k: "truthy (assemblyai_key sample_env)" "truthy (openai_key sample_env)"
    "truthy (elevenlabs_key sample_env)"
    by (simp_all add: truthy_def sample_env_def)
  have s: "str_int 1405 = ''1405''"
    by (simp add: str_int_def str_nat.simps)
  show ?thesis
    using welcome_text_differs [OF k, where sid = 1405 and sessions = Map.empty and w = sample_world]
    by (auto simp: case_prod_beta s sample_defs GREETING_TEXT_def split: option.splits)
qed

end
